theory Spec2Isabelle
  imports Complex_Main
begin

section \<open>The video player component: playback and control state\<close>

text \<open>
  A shallow embedding of \<^verbatim>\<open>src/react-video-player/index.tsx\<close>, the \<^verbatim>\<open>VideoPlayer\<close>
  function component. What React and the host do around the component's own code is
  written out:
  \<^item> every \<^verbatim>\<open>useState\<close> cell is a field of the record \<open>pstate\<close>; a setter writes the
    field of the live state \<open>st\<close> of the world;
  \<^item> a handler is a closure of one render, and the state variables it mentions are the
    values of that render. Each handler therefore takes the render's state \<open>snap\<close> as
    an argument, next to the world it changes; \<open>step\<close> passes the state that is
    current when the event arrives;
  \<^item> the two refs, the \<^verbatim>\<open><video>\<close> element with the properties the code reads and
    writes, the host's pending timeouts and the host's clock are fields of \<open>world\<close>;
  \<^item> effects with a dependency list run after a handler when a dependency differs.
\<close>

subsection \<open>JavaScript numbers\<close>

text \<open>
  A JavaScript number is a finite value, one of the two infinities, or NaN. Finite values
  are idealised as reals: rounding, overflow to an infinity and the sign of zero are left
  out (a division of a non-zero finite value by zero is taken with a positive zero).
  What is kept is what the code's divisions and products meet: \<open>0 / 0\<close> is NaN, NaN
  propagates, and a division by an infinity is zero.
\<close>

datatype number = Fin real | PosInf | NegInf | NaN

fun js_div :: "number \<Rightarrow> number \<Rightarrow> number" where
  "js_div NaN y = NaN"
| "js_div x NaN = NaN"
| "js_div (Fin a) (Fin b) =
     (if b = 0 then (if a = 0 then NaN else if 0 < a then PosInf else NegInf)
      else Fin (a / b))"
| "js_div (Fin a) PosInf = Fin 0"
| "js_div (Fin a) NegInf = Fin 0"
| "js_div PosInf (Fin b) = (if b < 0 then NegInf else PosInf)"
| "js_div NegInf (Fin b) = (if b < 0 then PosInf else NegInf)"
| "js_div PosInf PosInf = NaN"
| "js_div PosInf NegInf = NaN"
| "js_div NegInf PosInf = NaN"
| "js_div NegInf NegInf = NaN"

fun js_mul :: "number \<Rightarrow> number \<Rightarrow> number" where
  "js_mul NaN y = NaN"
| "js_mul x NaN = NaN"
| "js_mul (Fin a) (Fin b) = Fin (a * b)"
| "js_mul (Fin a) PosInf = (if a = 0 then NaN else if 0 < a then PosInf else NegInf)"
| "js_mul (Fin a) NegInf = (if a = 0 then NaN else if 0 < a then NegInf else PosInf)"
| "js_mul PosInf (Fin b) = (if b = 0 then NaN else if 0 < b then PosInf else NegInf)"
| "js_mul NegInf (Fin b) = (if b = 0 then NaN else if 0 < b then NegInf else PosInf)"
| "js_mul PosInf PosInf = PosInf"
| "js_mul PosInf NegInf = NegInf"
| "js_mul NegInf PosInf = NegInf"
| "js_mul NegInf NegInf = PosInf"

subsection \<open>The media element\<close>

text \<open>
  The \<^verbatim>\<open>HTMLVideoElement\<close> behind \<^verbatim>\<open>videoRef\<close>: the three properties the component reads
  or assigns, the handlers it has registered with \<^verbatim>\<open>addEventListener\<close>, and the calls of
  \<^verbatim>\<open>play()\<close> and \<^verbatim>\<open>pause()\<close> it has made, oldest first. An assignment to a property is
  the command to the host (assigning \<^verbatim>\<open>currentTime\<close> is the seek); how the host then
  plays is not the component's code. \<open>v_pendingPlay\<close> counts the promises of
  \<^verbatim>\<open>play()\<close> that have not settled.
\<close>

datatype listener = TimeUpdateL | LoadedMetadataL | EndedL

datatype call = Play | Pause

datatype outcome = Fulfilled | Rejected

record video =
  v_currentTime :: number
  v_duration :: number
  v_volume :: number
  v_listeners :: "listener list"
  v_calls :: "call list"
  v_pendingPlay :: nat

definition addEventListener :: "listener \<Rightarrow> video \<Rightarrow> video" where
  "addEventListener l v =
     (if l \<in> set (v_listeners v) then v else v\<lparr>v_listeners := v_listeners v @ [l]\<rparr>)"

definition removeEventListener :: "listener \<Rightarrow> video \<Rightarrow> video" where
  "removeEventListener l v = v\<lparr>v_listeners := removeAll l (v_listeners v)\<rparr>"

definition play :: "video \<Rightarrow> video" where
  "play v = v\<lparr>v_calls := v_calls v @ [Play], v_pendingPlay := Suc (v_pendingPlay v)\<rparr>"

definition pause :: "video \<Rightarrow> video" where
  "pause v = v\<lparr>v_calls := v_calls v @ [Pause]\<rparr>"

text \<open>
  The setter of \<^verbatim>\<open>currentTime\<close> takes a finite number (the attribute is a \<^verbatim>\<open>double\<close> of the
  element's interface): given NaN or an infinity it throws a \<^verbatim>\<open>TypeError\<close> and the element
  is not sought. The component computes the value it assigns at line 96 from the element's
  duration, which is NaN until the metadata has loaded and infinite for a stream without
  an end, so the exception is a result the code meets.
\<close>

datatype error = TypeError

definition set_currentTime :: "number \<Rightarrow> video \<Rightarrow> error + video" where
  "set_currentTime x v =
     (case x of
        Fin t \<Rightarrow> Inr (v\<lparr>v_currentTime := Fin t\<rparr>)
      | PosInf \<Rightarrow> Inl TypeError
      | NegInf \<Rightarrow> Inl TypeError
      | NaN \<Rightarrow> Inl TypeError)"

subsection \<open>Component state, refs and timers\<close>

text \<open>The seven \<^verbatim>\<open>useState\<close> cells (lines 12 to 18); \<open>progress\<close> is the scrub position in percent.\<close>

record pstate =
  isPlaying :: bool
  progress :: number
  volume :: number
  isMuted :: bool
  duration :: number
  currentTime :: number
  isControlsVisible :: bool

text \<open>
  A pending timeout of the host. The only callback the component ever passes to
  \<^verbatim>\<open>setTimeout\<close> is the one of \<^verbatim>\<open>showControlsTemporarily\<close>, so a timer is its handle, the
  time it is due, and the value of \<^verbatim>\<open>isPlaying\<close> in the closure that was passed.
\<close>

record timer =
  t_handle :: nat
  t_due :: nat
  t_isPlaying :: bool

record world =
  st :: pstate
  videoRef :: "video option"
  controlsTimeoutRef :: "nat option"
  timers :: "timer list"
  next_handle :: nat
  now :: nat
  mounted :: bool

definition setIsPlaying :: "bool \<Rightarrow> world \<Rightarrow> world" where
  "setIsPlaying b w = w\<lparr>st := (st w)\<lparr>isPlaying := b\<rparr>\<rparr>"

definition setProgress :: "number \<Rightarrow> world \<Rightarrow> world" where
  "setProgress x w = w\<lparr>st := (st w)\<lparr>progress := x\<rparr>\<rparr>"

definition setVolume :: "number \<Rightarrow> world \<Rightarrow> world" where
  "setVolume x w = w\<lparr>st := (st w)\<lparr>volume := x\<rparr>\<rparr>"

definition setIsMuted :: "bool \<Rightarrow> world \<Rightarrow> world" where
  "setIsMuted b w = w\<lparr>st := (st w)\<lparr>isMuted := b\<rparr>\<rparr>"

definition setDuration :: "number \<Rightarrow> world \<Rightarrow> world" where
  "setDuration x w = w\<lparr>st := (st w)\<lparr>duration := x\<rparr>\<rparr>"

definition setCurrentTime :: "number \<Rightarrow> world \<Rightarrow> world" where
  "setCurrentTime x w = w\<lparr>st := (st w)\<lparr>currentTime := x\<rparr>\<rparr>"

definition setIsControlsVisible :: "bool \<Rightarrow> world \<Rightarrow> world" where
  "setIsControlsVisible b w = w\<lparr>st := (st w)\<lparr>isControlsVisible := b\<rparr>\<rparr>"

text \<open>
  \<^verbatim>\<open>setTimeout(cb, delay)\<close> returns a fresh handle and leaves the timer pending;
  \<^verbatim>\<open>clearTimeout(h)\<close> drops the pending timer with that handle, if there is one.
\<close>

definition setTimeout :: "bool \<Rightarrow> nat \<Rightarrow> world \<Rightarrow> nat \<times> world" where
  "setTimeout captured delay w =
     (next_handle w,
      w\<lparr>timers := timers w @
           [\<lparr>t_handle = next_handle w, t_due = now w + delay, t_isPlaying = captured\<rparr>],
        next_handle := Suc (next_handle w)\<rparr>)"

definition clearTimeout :: "nat \<Rightarrow> world \<Rightarrow> world" where
  "clearTimeout h w = w\<lparr>timers := filter (\<lambda>t. t_handle t \<noteq> h) (timers w)\<rparr>"

subsection \<open>The visibility timer (lines 106 to 122)\<close>

text \<open>
  The callback passed to \<^verbatim>\<open>setTimeout\<close> at line 113: \<^verbatim>\<open>isPlaying\<close> is the variable of
  the render that created the enclosing \<^verbatim>\<open>showControlsTemporarily\<close>.
\<close>

definition hideCallback :: "bool \<Rightarrow> world \<Rightarrow> world" where
  "hideCallback captured w = (if captured then setIsControlsVisible False w else w)"

text \<open>
  A handle is a \<^verbatim>\<open>Timeout\<close> object (a positive integer in a browser), so the test of
  line 109 is the test that the ref is not \<^verbatim>\<open>null\<close>.
\<close>

definition showControlsTemporarily :: "pstate \<Rightarrow> world \<Rightarrow> world" where
  "showControlsTemporarily snap w =
     (let w1 = setIsControlsVisible True w;
          w2 = (case controlsTimeoutRef w1 of
                  None \<Rightarrow> w1
                | Some h \<Rightarrow> clearTimeout h w1);
          r = setTimeout (isPlaying snap) 3000 w2
      in (snd r)\<lparr>controlsTimeoutRef := Some (fst r)\<rparr>)"

definition handleVideoContainerInteraction :: "pstate \<Rightarrow> world \<Rightarrow> world" where
  "handleVideoContainerInteraction snap w = showControlsTemporarily snap w"

text \<open>The host runs a pending timer once it is due, and a timer runs once.\<close>

definition fire_timer :: "nat \<Rightarrow> world \<Rightarrow> world" where
  "fire_timer h w =
     (case find (\<lambda>t. t_handle t = h) (timers w) of
        None \<Rightarrow> w
      | Some t \<Rightarrow>
          if t_due t \<le> now w
          then hideCallback (t_isPlaying t) (clearTimeout h w)
          else w)"

subsection \<open>The event bridge (lines 21 to 49)\<close>

text \<open>
  The three handlers are closures of the mount effect; \<^verbatim>\<open>video\<close> is the element that
  \<^verbatim>\<open>videoRef.current\<close> held when the effect ran, which was not \<^verbatim>\<open>null\<close> (line 23). They
  are only ever called by the element, so they take the element as found in the world.
\<close>

definition handleTimeUpdate :: "video \<Rightarrow> world \<Rightarrow> world" where
  "handleTimeUpdate video w =
     setProgress (js_mul (js_div (v_currentTime video) (v_duration video)) (Fin 100))
       (setCurrentTime (v_currentTime video) w)"

definition handleLoadedMetadata :: "video \<Rightarrow> world \<Rightarrow> world" where
  "handleLoadedMetadata video w = setDuration (v_duration video) w"

text \<open>
  Line 37 assigns the constant 0, a finite value, which the setter of \<^verbatim>\<open>currentTime\<close>
  accepts.
\<close>

definition handleEnded :: "video \<Rightarrow> world \<Rightarrow> world" where
  "handleEnded video w =
     (setProgress (Fin 0) (setIsPlaying False w))
       \<lparr>videoRef := Some (video\<lparr>v_currentTime := Fin 0\<rparr>)\<rparr>"

definition listener_effect :: "world \<Rightarrow> world" where
  "listener_effect w =
     (case videoRef w of
        None \<Rightarrow> w
      | Some video \<Rightarrow>
          w\<lparr>videoRef := Some (addEventListener EndedL
                (addEventListener LoadedMetadataL
                  (addEventListener TimeUpdateL video)))\<rparr>)"

text \<open>
  The function the mount effect returns (lines 44 to 48). The effect returns none when
  it left at line 23, and then there is nothing to run.
\<close>

definition listener_cleanup :: "world \<Rightarrow> world" where
  "listener_cleanup w =
     (case videoRef w of
        None \<Rightarrow> w
      | Some video \<Rightarrow>
          w\<lparr>videoRef := Some (removeEventListener EndedL
                (removeEventListener LoadedMetadataL
                  (removeEventListener TimeUpdateL video)))\<rparr>)"

subsection \<open>The effects on \<^verbatim>\<open>isPlaying\<close> and on \<^verbatim>\<open>volume\<close>, \<^verbatim>\<open>isMuted\<close> (lines 51 to 67)\<close>

definition play_effect :: "world \<Rightarrow> world" where
  "play_effect w =
     (case videoRef w of
        None \<Rightarrow> w
      | Some video \<Rightarrow>
          if isPlaying (st w) then w\<lparr>videoRef := Some (play video)\<rparr>
          else w\<lparr>videoRef := Some (pause video)\<rparr>)"

text \<open>
  \<^verbatim>\<open>.catch(() => setIsPlaying(false))\<close>: the promise that \<^verbatim>\<open>catch\<close> returns is fulfilled
  whether \<^verbatim>\<open>play()\<close> was fulfilled or rejected, since the handler returns normally.
\<close>

definition play_catch :: "outcome \<Rightarrow> world \<Rightarrow> outcome \<times> world" where
  "play_catch r w =
     (case r of
        Fulfilled \<Rightarrow> (Fulfilled, w)
      | Rejected \<Rightarrow> (Fulfilled, setIsPlaying False w))"

definition volume_effect :: "world \<Rightarrow> world" where
  "volume_effect w =
     (case videoRef w of
        None \<Rightarrow> w
      | Some video \<Rightarrow>
          w\<lparr>videoRef :=
              Some (video\<lparr>v_volume := (if isMuted (st w) then Fin 0 else volume (st w))\<rparr>)\<rparr>)"

subsection \<open>The command dispatcher (lines 69 to 98)\<close>

definition handlePlayPause :: "pstate \<Rightarrow> world \<Rightarrow> world" where
  "handlePlayPause snap w = showControlsTemporarily snap (setIsPlaying (\<not> isPlaying snap) w)"

text \<open>\<open>newVolume\<close> and \<open>newProgress\<close> are \<^verbatim>\<open>parseFloat(e.target.value)\<close> of the range input.\<close>

definition handleVolumeChange :: "pstate \<Rightarrow> number \<Rightarrow> world \<Rightarrow> world" where
  "handleVolumeChange snap newVolume w =
     (let w1 = setVolume newVolume w;
          w2 = (if newVolume = Fin 0 then setIsMuted True w1
                else if isMuted snap then setIsMuted False w1
                else w1)
      in showControlsTemporarily snap w2)"

definition handleMuteToggle :: "pstate \<Rightarrow> world \<Rightarrow> world" where
  "handleMuteToggle snap w = showControlsTemporarily snap (setIsMuted (\<not> isMuted snap) w)"

text \<open>
  The result is the world the handler leaves behind. When the assignment of line 96 throws,
  the handler is left there: line 97 is not reached, nobody catches the exception in the
  component, and React still applies the update that line 95 has queued.
\<close>

definition handleProgressChange :: "pstate \<Rightarrow> number \<Rightarrow> world \<Rightarrow> world" where
  "handleProgressChange snap newProgress w =
     (case videoRef w of
        None \<Rightarrow> w
      | Some video \<Rightarrow>
          (let w1 = setProgress newProgress w
           in case set_currentTime
                     (js_mul (js_div newProgress (Fin 100)) (v_duration video)) video of
                Inl e \<Rightarrow> w1
              | Inr video' \<Rightarrow> showControlsTemporarily snap (w1\<lparr>videoRef := Some video'\<rparr>)))"

subsection \<open>The component as a transition system\<close>

text \<open>
  After a handler has run React renders again and runs each effect whose dependencies
  differ from those of the previous render; \<open>prev\<close> is the state of that render.
\<close>

definition run_effects :: "pstate \<Rightarrow> world \<Rightarrow> world" where
  "run_effects prev w =
     (let w1 = (if isPlaying (st w) = isPlaying prev then w else play_effect w)
      in if volume (st w1) = volume prev \<and> isMuted (st w1) = isMuted prev then w1
         else volume_effect w1)"

text \<open>
  The first render (lines 12 to 19) and the three effects in the order they are written.
  \<open>v\<close> is what \<^verbatim>\<open>videoRef.current\<close> holds when the effects run.
\<close>

definition mount :: "bool \<Rightarrow> video option \<Rightarrow> world" where
  "mount autoPlay v =
     volume_effect (play_effect (listener_effect
       \<lparr>st = \<lparr>isPlaying = autoPlay, progress = Fin 0, volume = Fin (1 / 2),
               isMuted = False, duration = Fin 0, currentTime = Fin 0,
               isControlsVisible = True\<rparr>,
        videoRef = v, controlsTimeoutRef = None, timers = [], next_handle = 1,
        now = 0, mounted = True\<rparr>))"

definition unmount :: "world \<Rightarrow> world" where
  "unmount w = (listener_cleanup w)\<lparr>mounted := False\<rparr>"

text \<open>
  What can happen to a mounted component. The notifications come from the element and
  reach a handler only while it is registered. The user events are those of the markup
  (lines 124 to 303): pointer movement and touch on the container; a click on the
  container or on the play button of the controls (which stops propagation); a click on
  the corner mute button, which bubbles to the container; a click on the large play
  button, which is the button's own handler and the container's; the mute button of the
  controls; and the two range inputs. The host lets time pass, fires a due timer, settles
  a promise of \<^verbatim>\<open>play()\<close>, and moves the element's position and duration.
\<close>

datatype event =
    MediaTimeUpdate
  | MediaLoadedMetadata
  | MediaEnded
  | MediaProgress number number
  | PlaySettled outcome
  | PointerMove
  | PlayPauseClick
  | CornerMuteClick
  | LargePlayClick
  | MuteClick
  | VolumeInput number
  | ProgressInput number
  | Elapse nat
  | TimerFire nat
  | Unmount

definition notify :: "listener \<Rightarrow> (video \<Rightarrow> world \<Rightarrow> world) \<Rightarrow> world \<Rightarrow> world" where
  "notify l handler w =
     (case videoRef w of
        None \<Rightarrow> w
      | Some video \<Rightarrow> if l \<in> set (v_listeners video) then handler video w else w)"

definition settle_play :: "outcome \<Rightarrow> world \<Rightarrow> world" where
  "settle_play r w =
     (case videoRef w of
        None \<Rightarrow> w
      | Some video \<Rightarrow>
          if v_pendingPlay video = 0 then w
          else snd (play_catch r
                 (w\<lparr>videoRef := Some (video\<lparr>v_pendingPlay := v_pendingPlay video - 1\<rparr>)\<rparr>)))"

definition user :: "(pstate \<Rightarrow> world \<Rightarrow> world) \<Rightarrow> world \<Rightarrow> world" where
  "user handler w = (if mounted w then handler (st w) w else w)"

fun react :: "event \<Rightarrow> world \<Rightarrow> world" where
  "react MediaTimeUpdate w = notify TimeUpdateL handleTimeUpdate w"
| "react MediaLoadedMetadata w = notify LoadedMetadataL handleLoadedMetadata w"
| "react MediaEnded w = notify EndedL handleEnded w"
| "react (MediaProgress t d) w =
     w\<lparr>videoRef := map_option (\<lambda>v. v\<lparr>v_currentTime := t, v_duration := d\<rparr>) (videoRef w)\<rparr>"
| "react (PlaySettled r) w = settle_play r w"
| "react PointerMove w = user handleVideoContainerInteraction w"
| "react PlayPauseClick w = user handlePlayPause w"
| "react CornerMuteClick w =
     user (\<lambda>snap w'. handlePlayPause snap (handleMuteToggle snap w')) w"
| "react LargePlayClick w =
     user (\<lambda>snap w'. if isPlaying snap then w'
                      else handlePlayPause snap (handlePlayPause snap w')) w"
| "react MuteClick w = user handleMuteToggle w"
| "react (VolumeInput x) w = user (\<lambda>snap. handleVolumeChange snap x) w"
| "react (ProgressInput x) w = user (\<lambda>snap. handleProgressChange snap x) w"
| "react (Elapse d) w = w\<lparr>now := now w + d\<rparr>"
| "react (TimerFire h) w = fire_timer h w"
| "react Unmount w = (if mounted w then unmount w else w)"

definition step :: "event \<Rightarrow> world \<Rightarrow> world" where
  "step e w =
     (let w' = react e w in if mounted w' then run_effects (st w) w' else w')"

fun run :: "event list \<Rightarrow> world \<Rightarrow> world" where
  "run [] w = w"
| "run (e # es) w = run es (step e w)"

subsection \<open>Invariants and an element to start from\<close>

text \<open>
  The pending timers are at most one, and \<^verbatim>\<open>controlsTimeoutRef\<close> holds the handle of each
  (so when the ref is \<^verbatim>\<open>null\<close> none is pending).
\<close>

definition timer_inv :: "world \<Rightarrow> bool" where
  "timer_inv w =
     (length (timers w) \<le> 1 \<and>
      list_all (\<lambda>t. controlsTimeoutRef w = Some (t_handle t)) (timers w))"

text \<open>The value of line 66, and the statement that the element's volume is that value.\<close>

definition effective_volume :: "pstate \<Rightarrow> number" where
  "effective_volume s = (if isMuted s then Fin 0 else volume s)"

definition volume_synced :: "world \<Rightarrow> bool" where
  "volume_synced w =
     (case videoRef w of
        None \<Rightarrow> True
      | Some video \<Rightarrow> v_volume video = effective_volume (st w))"

text \<open>
  A \<^verbatim>\<open><video>\<close> element as the first render creates it: at position 0, with no metadata
  yet (its duration is NaN), at full volume, with no listener and no call made.
\<close>

definition video0 :: video where
  "video0 = \<lparr>v_currentTime = Fin 0, v_duration = NaN, v_volume = Fin 1,
              v_listeners = [], v_calls = [], v_pendingPlay = 0\<rparr>"

section \<open>Properties\<close>

subsection \<open>Unfolding and projections\<close>

lemmas setter_defs = setIsPlaying_def setProgress_def setVolume_def setIsMuted_def
  setDuration_def setCurrentTime_def setIsControlsVisible_def

lemmas element_defs = addEventListener_def removeEventListener_def play_def pause_def
  set_currentTime_def

lemmas effect_defs = listener_effect_def listener_cleanup_def play_effect_def
  volume_effect_def run_effects_def

lemmas timer_defs = setTimeout_def clearTimeout_def hideCallback_def fire_timer_def

lemmas handler_defs = handleTimeUpdate_def handleLoadedMetadata_def handleEnded_def
  handlePlayPause_def handleVolumeChange_def handleMuteToggle_def handleProgressChange_def
  handleVideoContainerInteraction_def

lemmas system_defs = mount_def unmount_def notify_def settle_play_def user_def step_def
  play_catch_def

lemmas all_defs = system_defs handler_defs effect_defs timer_defs setter_defs element_defs
  showControlsTemporarily_def video0_def Let_def

lemma show_st [simp]:
  "st (showControlsTemporarily snap w) = (st w)\<lparr>isControlsVisible := True\<rparr>"
  by (simp add: showControlsTemporarily_def setter_defs timer_defs Let_def split: option.splits)

lemma show_videoRef [simp]: "videoRef (showControlsTemporarily snap w) = videoRef w"
  by (simp add: showControlsTemporarily_def setter_defs timer_defs Let_def split: option.splits)

lemma show_mounted [simp]: "mounted (showControlsTemporarily snap w) = mounted w"
  by (simp add: showControlsTemporarily_def setter_defs timer_defs Let_def split: option.splits)

lemma show_now [simp]: "now (showControlsTemporarily snap w) = now w"
  by (simp add: showControlsTemporarily_def setter_defs timer_defs Let_def split: option.splits)

lemma show_ref [simp]:
  "controlsTimeoutRef (showControlsTemporarily snap w) = Some (next_handle w)"
  by (simp add: showControlsTemporarily_def setter_defs timer_defs Let_def split: option.splits)

lemma show_timers:
  "timers (showControlsTemporarily snap w) =
     (case controlsTimeoutRef w of
        None \<Rightarrow> timers w
      | Some h \<Rightarrow> filter (\<lambda>t. t_handle t \<noteq> h) (timers w)) @
     [\<lparr>t_handle = next_handle w, t_due = now w + 3000, t_isPlaying = isPlaying snap\<rparr>]"
  by (simp add: showControlsTemporarily_def setter_defs timer_defs Let_def split: option.splits)

lemma run_effects_same: "run_effects (st w) w = w"
  by (simp add: run_effects_def)

lemma run_effects_st [simp]: "st (run_effects prev w) = st w"
  by (simp add: effect_defs Let_def split: option.splits)

lemma run_effects_mounted [simp]: "mounted (run_effects prev w) = mounted w"
  by (simp add: effect_defs Let_def split: option.splits)

lemma run_effects_timers [simp]:
  "timers (run_effects prev w) = timers w"
  "controlsTimeoutRef (run_effects prev w) = controlsTimeoutRef w"
  by (simp_all add: effect_defs Let_def split: option.splits)

lemma step_st: "st (step e w) = st (react e w)"
  by (simp add: step_def Let_def)

lemma step_mounted: "mounted (step e w) = mounted (react e w)"
  by (simp add: step_def Let_def)

lemma removeAll_listeners:
  "removeAll EndedL (removeAll LoadedMetadataL (removeAll TimeUpdateL ls)) = []"
proof (induction ls)
  case Nil
  show ?case by simp
next
  case (Cons l ls)
  then show ?case by (cases l) simp_all
qed

subsection \<open>One pending timer\<close>

text \<open>
  Under the invariant, what \<^verbatim>\<open>clearTimeout\<close> leaves at line 110 is nothing: the only timer
  that can be pending is the one the ref names.
\<close>

lemma timer_inv_cancel:
  assumes "timer_inv w"
  shows "(case controlsTimeoutRef w of
            None \<Rightarrow> timers w
          | Some h \<Rightarrow> filter (\<lambda>t. t_handle t \<noteq> h) (timers w)) = []"
proof (cases "timers w")
  case Nil
  then show ?thesis by (simp split: option.splits)
next
  case (Cons t ts)
  with assms have "ts = []" and "controlsTimeoutRef w = Some (t_handle t)"
    by (simp_all add: timer_inv_def)
  with Cons show ?thesis by simp
qed

lemma show_timers_inv:
  "timer_inv w \<Longrightarrow>
   timers (showControlsTemporarily snap w) =
     [\<lparr>t_handle = next_handle w, t_due = now w + 3000, t_isPlaying = isPlaying snap\<rparr>]"
  by (simp add: show_timers timer_inv_cancel)

lemma timer_inv_show: "timer_inv w \<Longrightarrow> timer_inv (showControlsTemporarily snap w)"
  by (simp add: timer_inv_def [of "showControlsTemporarily snap w"] show_timers_inv)

lemma timer_inv_cong:
  "timers w' = timers w \<Longrightarrow> controlsTimeoutRef w' = controlsTimeoutRef w \<Longrightarrow>
   timer_inv w' = timer_inv w"
  by (simp add: timer_inv_def)

lemma timer_inv_fire: "timer_inv w \<Longrightarrow> timer_inv (fire_timer h w)"
  by (cases "timers w")
     (auto simp: timer_inv_def timer_defs setter_defs split: option.splits)

lemma timer_inv_handlePlayPause:
  "timer_inv w \<Longrightarrow> timer_inv (handlePlayPause snap w)"
  unfolding handlePlayPause_def
  by (rule timer_inv_show) (simp add: timer_inv_def setter_defs)

lemma timer_inv_handleMuteToggle:
  "timer_inv w \<Longrightarrow> timer_inv (handleMuteToggle snap w)"
  unfolding handleMuteToggle_def
  by (rule timer_inv_show) (simp add: timer_inv_def setter_defs)

lemma timer_inv_handleVolumeChange:
  "timer_inv w \<Longrightarrow> timer_inv (handleVolumeChange snap x w)"
  unfolding handleVolumeChange_def Let_def
  by (rule timer_inv_show) (simp add: timer_inv_def setter_defs)

lemma timer_inv_handleProgressChange:
  "timer_inv w \<Longrightarrow> timer_inv (handleProgressChange snap x w)"
proof (cases "videoRef w")
  case None
  assume "timer_inv w"
  with None show ?thesis by (simp add: handleProgressChange_def)
next
  case (Some video)
  assume "timer_inv w"
  then have "timer_inv (setProgress x w)"
    and "timer_inv ((setProgress x w)\<lparr>videoRef := Some video'\<rparr>)" for video'
    by (simp_all add: timer_inv_def setter_defs)
  then show ?thesis using Some
    by (simp add: handleProgressChange_def Let_def timer_inv_show split: sum.splits)
qed

lemma timer_inv_notify:
  "timer_inv w \<Longrightarrow> timer_inv (notify TimeUpdateL handleTimeUpdate w)"
  "timer_inv w \<Longrightarrow> timer_inv (notify LoadedMetadataL handleLoadedMetadata w)"
  "timer_inv w \<Longrightarrow> timer_inv (notify EndedL handleEnded w)"
  by (simp_all add: notify_def timer_inv_def handler_defs setter_defs split: option.splits)

lemma timer_inv_settle_play: "timer_inv w \<Longrightarrow> timer_inv (settle_play r w)"
  by (simp add: settle_play_def play_catch_def timer_inv_def setter_defs
      split: option.splits outcome.splits)

lemma timer_inv_unmount: "timer_inv w \<Longrightarrow> timer_inv (unmount w)"
  by (simp add: unmount_def listener_cleanup_def timer_inv_def split: option.splits)

lemma timer_inv_react: "timer_inv w \<Longrightarrow> timer_inv (react e w)"
proof (cases e)
  case (MediaProgress t d)
  assume "timer_inv w"
  with MediaProgress show ?thesis by (simp add: timer_inv_def)
next
  case (Elapse d)
  assume "timer_inv w"
  with Elapse show ?thesis by (simp add: timer_inv_def)
qed (simp_all add: user_def timer_inv_notify timer_inv_settle_play timer_inv_unmount
      timer_inv_fire timer_inv_show timer_inv_handlePlayPause timer_inv_handleMuteToggle
      timer_inv_handleVolumeChange timer_inv_handleProgressChange
      handleVideoContainerInteraction_def)

lemma timer_inv_step: "timer_inv w \<Longrightarrow> timer_inv (step e w)"
proof -
  assume "timer_inv w"
  then have "timer_inv (react e w)" by (rule timer_inv_react)
  moreover have "timer_inv (run_effects (st w) (react e w)) = timer_inv (react e w)"
    by (rule timer_inv_cong) simp_all
  ultimately show ?thesis by (simp add: step_def Let_def)
qed

lemma timer_inv_run: "timer_inv w \<Longrightarrow> timer_inv (run es w)"
  by (induction es arbitrary: w) (simp_all add: timer_inv_step)

lemma timer_inv_mount: "timer_inv (mount autoPlay v)"
  by (simp add: mount_def timer_inv_def effect_defs split: option.splits)

lemma fire_after_show:
  "timer_inv w \<Longrightarrow> \<not> isPlaying snap \<Longrightarrow>
   isControlsVisible (st (fire_timer h (react (Elapse d) (showControlsTemporarily snap w))))"
  by (simp add: fire_timer_def show_timers_inv hideCallback_def clearTimeout_def)

subsection \<open>The element's volume follows the state\<close>

lemma react_v_volume:
  "map_option v_volume (videoRef (react e w)) = map_option v_volume (videoRef w)"
  by (cases e)
     (simp_all add: user_def notify_def settle_play_def play_catch_def unmount_def
        handler_defs setter_defs timer_defs listener_cleanup_def removeEventListener_def
        set_currentTime_def Let_def option.map_comp comp_def
        split: option.splits outcome.splits number.splits)

lemma react_volume_unmounted:
  "\<not> mounted (react e w) \<Longrightarrow>
   volume (st (react e w)) = volume (st w) \<and> isMuted (st (react e w)) = isMuted (st w)"
  by (cases e)
     (simp_all add: user_def notify_def settle_play_def play_catch_def unmount_def
        handler_defs setter_defs timer_defs listener_cleanup_def
        set_currentTime_def Let_def
        split: option.splits outcome.splits number.splits if_splits)

lemma volume_synced_run_effects:
  "map_option v_volume (videoRef w) = map_option (\<lambda>_. effective_volume prev) (videoRef w) \<Longrightarrow>
   volume_synced (run_effects prev w)"
  by (auto simp: volume_synced_def effective_volume_def effect_defs element_defs Let_def
      split: option.splits)

lemma volume_synced_step: "volume_synced w \<Longrightarrow> volume_synced (step e w)"
proof -
  assume a: "volume_synced w"
  have b: "map_option v_volume (videoRef (react e w)) =
           map_option (\<lambda>_. effective_volume (st w)) (videoRef (react e w))"
    using a react_v_volume [of e w]
    by (auto simp: volume_synced_def split: option.splits)
  show ?thesis
  proof (cases "mounted (react e w)")
    case True
    then show ?thesis using b by (simp add: step_def Let_def volume_synced_run_effects)
  next
    case False
    then have "effective_volume (st (react e w)) = effective_volume (st w)"
      using react_volume_unmounted [of e w] by (simp add: effective_volume_def)
    then show ?thesis using False b
      by (auto simp: step_def Let_def volume_synced_def split: option.splits)
  qed
qed

lemma volume_synced_run: "volume_synced w \<Longrightarrow> volume_synced (run es w)"
  by (induction es arbitrary: w) (simp_all add: volume_synced_step)

lemma volume_synced_mount: "volume_synced (mount autoPlay v)"
  by (simp add: mount_def volume_synced_def effective_volume_def effect_defs
      split: option.splits)

lemma step_VolumeInput_videoRef:
  "mounted w \<Longrightarrow> videoRef w = Some video \<Longrightarrow>
   \<exists>video'. videoRef (step (VolumeInput x) w) = Some video'"
  by (simp add: step_def user_def handleVolumeChange_def setter_defs effect_defs Let_def)

section \<open>The properties of the specification\<close>

subsection \<open>C1: the "ended" notification\<close>

text \<open>
  C1, as the code has it. For every prior state, \<^verbatim>\<open>handleEnded\<close> sets \<open>isPlaying\<close> to false
  and \<open>progress\<close> to 0, leaves every other cell as it was, and assigns 0 to the element's
  \<^verbatim>\<open>currentTime\<close> (the seek to zero). The handler does not write the cell \<open>currentTime\<close>:
  that cell becomes 0 when the next "time advanced" notification reads the element's
  position, which the seek has put at 0.
\<close>

theorem handleEnded_state:
  "st (handleEnded video w) = (st w)\<lparr>isPlaying := False, progress := Fin 0\<rparr> \<and>
   videoRef (handleEnded video w) = Some (video\<lparr>v_currentTime := Fin 0\<rparr>) \<and>
   currentTime (st (handleEnded video w)) = currentTime (st w) \<and>
   currentTime (st (handleTimeUpdate (video\<lparr>v_currentTime := Fin 0\<rparr>)
                      (handleEnded video w))) = Fin 0"
  by (simp add: handleEnded_def handleTimeUpdate_def setter_defs)

text \<open>
  C1 as stated fails: a player that has reached the end of a clip of 120 seconds, and
  recorded that position, still has 120 in \<open>currentTime\<close> after the "ended" notification.
\<close>

theorem ended_currentTime_counterexample:
  "currentTime (st (run [MediaProgress (Fin 120) (Fin 120), MediaLoadedMetadata,
                         MediaTimeUpdate, MediaEnded] (mount True (Some video0)))) = Fin 120 \<and>
   currentTime (st (run [MediaProgress (Fin 120) (Fin 120), MediaLoadedMetadata,
                         MediaTimeUpdate, MediaEnded] (mount True (Some video0)))) \<noteq> Fin 0"
  by (simp add: all_defs)

subsection \<open>C2: what the hide timer tests when it fires\<close>

text \<open>
  C2 says that a firing timer hides the controls only if \<open>isPlaying\<close> is true at that
  moment. The callback of line 113 tests the \<^verbatim>\<open>isPlaying\<close> of the render that scheduled it.
  Two runs of an auto-playing player show the difference. In the first the pointer moves,
  playback ends before the timer is due, and the timer of the pointer movement fires; in
  the second the user clicks pause and the timer of that click fires. In both, just before
  the timer fires, \<open>isPlaying\<close> is false and the controls are visible; after it has fired
  the controls are hidden.
\<close>

theorem hide_fires_while_paused:
  "\<not> isPlaying (st (run [PointerMove, MediaEnded, Elapse 3000] (mount True (Some video0)))) \<and>
   isControlsVisible (st (run [PointerMove, MediaEnded, Elapse 3000] (mount True (Some video0)))) \<and>
   \<not> isControlsVisible (st (run [PointerMove, MediaEnded, Elapse 3000, TimerFire 1]
                               (mount True (Some video0)))) \<and>
   \<not> isPlaying (st (run [PlayPauseClick, Elapse 3000] (mount True (Some video0)))) \<and>
   isControlsVisible (st (run [PlayPauseClick, Elapse 3000] (mount True (Some video0)))) \<and>
   \<not> isControlsVisible (st (run [PlayPauseClick, Elapse 3000, TimerFire 1]
                               (mount True (Some video0))))"
  by (simp add: all_defs)

subsection \<open>C3: unmounting\<close>

text \<open>
  C3, as the code has it. Whatever the state (so also before any metadata has loaded),
  unmounting removes the three notification handlers from the element, if there is one,
  and after it a notification changes nothing. The pending timers and
  \<^verbatim>\<open>controlsTimeoutRef\<close> are left as they were: the cleanup of lines 44 to 48 does not
  call \<^verbatim>\<open>clearTimeout\<close>.
\<close>

theorem unmount_unsubscribes:
  "videoRef (unmount w) = map_option (\<lambda>v. v\<lparr>v_listeners := []\<rparr>) (videoRef w) \<and>
   \<not> mounted (unmount w) \<and>
   step MediaTimeUpdate (unmount w) = unmount w \<and>
   step MediaLoadedMetadata (unmount w) = unmount w \<and>
   step MediaEnded (unmount w) = unmount w \<and>
   timers (unmount w) = timers w \<and>
   controlsTimeoutRef (unmount w) = controlsTimeoutRef w"
  by (cases "videoRef w")
     (simp_all add: unmount_def listener_cleanup_def removeEventListener_def
        removeAll_listeners step_def notify_def)

text \<open>
  C3 as stated fails: a timer scheduled by a pointer movement is still pending after the
  unmount, and the host fires it three seconds later.
\<close>

theorem unmount_timer_counterexample:
  "timers (run [PointerMove, Unmount] (mount True (Some video0))) =
     [\<lparr>t_handle = 1, t_due = 3000, t_isPlaying = True\<rparr>] \<and>
   timers (run [PointerMove, Unmount] (mount True (Some video0))) \<noteq> [] \<and>
   timers (run [PointerMove, Unmount, Elapse 3000, TimerFire 1] (mount True (Some video0))) = []"
  by (simp add: all_defs)

subsection \<open>C4: the "time advanced" notification\<close>

text \<open>
  C4, as the code has it. \<^verbatim>\<open>handleTimeUpdate\<close> copies the element's position into
  \<open>currentTime\<close> and sets \<open>progress\<close> to position / duration * 100, with the element's
  duration. When the duration is finite and positive and the position lies between 0 and
  the duration, that is a percentage between 0 and 100. There is no test of the duration:
  at duration 0 and position 0 the quotient is 0 / 0 and \<open>progress\<close> is NaN.
\<close>

theorem handleTimeUpdate_progress:
  assumes "v_currentTime video = Fin c" and "v_duration video = Fin d"
    and "0 \<le> c" and "c \<le> d" and "0 < d"
  shows "currentTime (st (handleTimeUpdate video w)) = Fin c \<and>
         progress (st (handleTimeUpdate video w)) = Fin (c / d * 100) \<and>
         0 \<le> c / d * 100 \<and> c / d * 100 \<le> 100 \<and>
         progress (st (handleTimeUpdate (video\<lparr>v_currentTime := Fin 0, v_duration := Fin 0\<rparr>) w))
           = NaN"
proof -
  have "0 \<le> c / d * 100"
    using assms by simp
  moreover have "c / d * 100 \<le> 100"
    using assms by (simp add: pos_divide_le_eq)
  ultimately show ?thesis
    using assms by (simp add: handleTimeUpdate_def setter_defs)
qed

text \<open>C4 at 30 seconds into a clip of 120 seconds: a quarter.\<close>

theorem handleTimeUpdate_progress_witness:
  "progress (st (handleTimeUpdate (video0\<lparr>v_currentTime := Fin 30, v_duration := Fin 120\<rparr>)
                   (mount True (Some video0)))) = Fin 25 \<and>
   currentTime (st (handleTimeUpdate (video0\<lparr>v_currentTime := Fin 30, v_duration := Fin 120\<rparr>)
                   (mount True (Some video0)))) = Fin 30"
  using handleTimeUpdate_progress
    [of "video0\<lparr>v_currentTime := Fin 30, v_duration := Fin 120\<rparr>" 30 120
        "mount True (Some video0)"]
  by simp

text \<open>
  C4 as stated fails where it says that \<open>progress\<close> is 0 at duration 0: with the element
  at position 0 and duration 0, and also with the NaN duration of an element without
  metadata, a "time advanced" notification leaves NaN in \<open>progress\<close>.
\<close>

theorem timeupdate_zero_duration_counterexample:
  "progress (st (run [MediaProgress (Fin 0) (Fin 0), MediaTimeUpdate]
                   (mount False (Some video0)))) = NaN \<and>
   progress (st (run [MediaProgress (Fin 0) (Fin 0), MediaTimeUpdate]
                   (mount False (Some video0)))) \<noteq> Fin 0 \<and>
   progress (st (run [MediaTimeUpdate] (mount False (Some video0)))) \<noteq> Fin 0"
  by (simp add: all_defs)

subsection \<open>C5: one timer, rescheduled by every show\<close>

text \<open>
  C5, as the code has it. In a state with at most one pending timer, named by the ref,
  \<^verbatim>\<open>showControlsTemporarily\<close> makes the controls visible and leaves exactly one timer
  pending: the one it has just created, due 3000 ms after the call, whose handle it
  stores in the ref. It does so whether playback is on or not. When playback is off, at
  the call and in the state, that timer leaves the controls visible whenever it fires.
  Every state the component reaches from its mount, by any events, has at most one
  pending timer.
\<close>

theorem show_one_timer:
  assumes "timer_inv w"
  shows "isControlsVisible (st (showControlsTemporarily snap w)) \<and>
         map t_handle (timers (showControlsTemporarily snap w)) = [next_handle w] \<and>
         map t_due (timers (showControlsTemporarily snap w)) = [now w + 3000] \<and>
         controlsTimeoutRef (showControlsTemporarily snap w) = Some (next_handle w) \<and>
         (\<not> isPlaying snap \<and> \<not> isPlaying (st w) \<longrightarrow>
            (\<forall>h d. isControlsVisible
               (st (fire_timer h (react (Elapse d) (showControlsTemporarily snap w)))))) \<and>
         (\<forall>es autoPlay v. timer_inv (run es (mount autoPlay v)) \<and>
            length (timers (run es (mount autoPlay v))) \<le> 1)"
proof -
  have "timer_inv (run es (mount autoPlay v))" for es autoPlay v
    by (rule timer_inv_run) (rule timer_inv_mount)
  moreover have "length (timers (run es (mount autoPlay v))) \<le> 1" for es autoPlay v
    using timer_inv_run [OF timer_inv_mount, of es autoPlay v] by (simp add: timer_inv_def)
  moreover have "isControlsVisible
      (st (fire_timer h (react (Elapse d) (showControlsTemporarily snap w))))"
    if "\<not> isPlaying snap" for h d
    using assms that by (rule fire_after_show)
  ultimately show ?thesis
    using assms by (simp add: show_timers_inv del: react.simps)
qed

text \<open>
  C5 on a player just mounted: playing, the timer is due at 3000; paused, the timer
  fired at 3000 leaves the controls visible; and after three events one timer at most.
\<close>

theorem show_one_timer_witness:
  "timer_inv (mount True (Some video0)) \<and>
   map t_due (timers (showControlsTemporarily (st (mount True (Some video0)))
                        (mount True (Some video0)))) = [3000] \<and>
   timer_inv (mount False (Some video0)) \<and>
   \<not> isPlaying (st (mount False (Some video0))) \<and>
   isControlsVisible (st (fire_timer 1 (react (Elapse 3000)
      (showControlsTemporarily (st (mount False (Some video0))) (mount False (Some video0)))))) \<and>
   length (timers (run [PointerMove, PlayPauseClick, PointerMove] (mount True None))) \<le> 1"
proof -
  have t: "timer_inv (mount True (Some video0))" and f: "timer_inv (mount False (Some video0))"
    by (rule timer_inv_mount)+
  have n: "now (mount True (Some video0)) = 0"
    and p: "\<not> isPlaying (st (mount False (Some video0)))"
    by (simp_all add: mount_def effect_defs video0_def)
  have "map t_due (timers (showControlsTemporarily (st (mount True (Some video0)))
                        (mount True (Some video0)))) = [3000]"
    using show_one_timer [OF t, of "st (mount True (Some video0))"] n by simp
  moreover have "isControlsVisible (st (fire_timer 1 (react (Elapse 3000)
      (showControlsTemporarily (st (mount False (Some video0))) (mount False (Some video0))))))"
    using show_one_timer [OF f, of "st (mount False (Some video0))"] p by blast
  moreover have
    "length (timers (run [PointerMove, PlayPauseClick, PointerMove] (mount True None))) \<le> 1"
    using show_one_timer [OF t] by blast
  ultimately show ?thesis
    using t f p by blast
qed

text \<open>
  C5 as stated fails where it says that nothing is scheduled while playback is off: a
  pointer movement over a paused player leaves a timer pending, due at 3000, and its
  handle in the ref.
\<close>

theorem paused_show_schedules_counterexample:
  "\<not> isPlaying (st (mount False (Some video0))) \<and>
   timers (step PointerMove (mount False (Some video0))) =
     [\<lparr>t_handle = 1, t_due = 3000, t_isPlaying = False\<rparr>] \<and>
   timers (step PointerMove (mount False (Some video0))) \<noteq> [] \<and>
   controlsTimeoutRef (step PointerMove (mount False (Some video0))) = Some 1"
  by (simp add: all_defs)

subsection \<open>C6: toggling playback, and a play that fails\<close>

text \<open>
  C6. \<^verbatim>\<open>handlePlayPause\<close> sets \<open>isPlaying\<close> to the negation of the render's value at once;
  on a mounted player with an element a click flips \<open>isPlaying\<close>, and the effect calls
  \<^verbatim>\<open>play()\<close> when the new value is true and \<^verbatim>\<open>pause()\<close> otherwise. The handler given to
  \<^verbatim>\<open>catch\<close> turns a rejection into a fulfilled promise and changes \<open>isPlaying\<close> to false
  and nothing else; so when the \<^verbatim>\<open>play()\<close> of a click is rejected, the state is the one
  after the click with \<open>isPlaying\<close> false, and the player is still mounted.
\<close>

theorem togglePlay_rollback:
  assumes "mounted w" and "videoRef w = Some video"
  shows "isPlaying (st (handlePlayPause snap w)) = (\<not> isPlaying snap) \<and>
         isPlaying (st (step PlayPauseClick w)) = (\<not> isPlaying (st w)) \<and>
         videoRef (step PlayPauseClick w)
           = Some (if isPlaying (st w) then pause video else play video) \<and>
         play_catch Rejected w' = (Fulfilled, w'\<lparr>st := (st w')\<lparr>isPlaying := False\<rparr>\<rparr>) \<and>
         (\<not> isPlaying (st w) \<longrightarrow>
            st (step (PlaySettled Rejected) (step PlayPauseClick w))
              = (st (step PlayPauseClick w))\<lparr>isPlaying := False\<rparr> \<and>
            mounted (step (PlaySettled Rejected) (step PlayPauseClick w)))"
proof -
  have a: "isPlaying (st (handlePlayPause snap w)) = (\<not> isPlaying snap)"
    by (simp add: handlePlayPause_def setIsPlaying_def)
  have b: "videoRef (step PlayPauseClick w)
             = Some (if isPlaying (st w) then pause video else play video)"
    using assms
    by (simp add: step_def user_def handlePlayPause_def setIsPlaying_def effect_defs Let_def)
  have c: "play_catch Rejected w' = (Fulfilled, w'\<lparr>st := (st w')\<lparr>isPlaying := False\<rparr>\<rparr>)"
    by (simp add: play_catch_def setIsPlaying_def)
  have d: "st (step (PlaySettled Rejected) (step PlayPauseClick w))
           = (st (step PlayPauseClick w))\<lparr>isPlaying := False\<rparr>"
    if "\<not> isPlaying (st w)"
    using b that
    by (simp add: step_st settle_play_def play_catch_def setIsPlaying_def play_def)
  have e: "mounted (step (PlaySettled Rejected) (step PlayPauseClick w))"
    if "\<not> isPlaying (st w)"
    using assms b that
    by (simp add: step_mounted settle_play_def play_catch_def setIsPlaying_def play_def
        user_def handlePlayPause_def)
  have f: "isPlaying (st (step PlayPauseClick w)) = (\<not> isPlaying (st w))"
    using assms by (simp add: step_st user_def handlePlayPause_def setIsPlaying_def)
  show ?thesis
    using a b c d e f by simp
qed

text \<open>C6 on a paused player just mounted: the click starts playback, the rejection stops it.\<close>

theorem togglePlay_rollback_witness:
  "mounted (mount False (Some video0)) \<and>
   \<not> isPlaying (st (mount False (Some video0))) \<and>
   isPlaying (st (step PlayPauseClick (mount False (Some video0)))) \<and>
   \<not> isPlaying (st (step (PlaySettled Rejected) (step PlayPauseClick (mount False (Some video0)))))"
proof -
  have m: "mounted (mount False (Some video0))"
    and v: "videoRef (mount False (Some video0)) =
      Some (pause (video0\<lparr>v_listeners := [TimeUpdateL, LoadedMetadataL, EndedL]\<rparr>)
              \<lparr>v_volume := Fin (1 / 2)\<rparr>)"
    and p: "\<not> isPlaying (st (mount False (Some video0)))"
    by (simp_all add: mount_def effect_defs element_defs video0_def)
  show ?thesis
    using m p togglePlay_rollback [OF m v] by simp
qed

subsection \<open>C7: seeking\<close>




subsection \<open>C8: the volume slider\<close>

text \<open>
  C8. On a mounted player whose element has the effective volume of the state, the
  volume input \<open>v\<close> between 0 and 1 sets \<open>volume\<close> to \<open>v\<close>, makes \<open>isMuted\<close> true when
  \<open>v\<close> is 0 and false otherwise, and leaves the element with the effective volume of the
  new state, which is \<open>v\<close>. The element has the effective volume of the state in every
  state the component reaches from its mount.
\<close>

theorem setVolume_effective:
  assumes "mounted w" and "videoRef w = Some video" and "volume_synced w"
    and "0 \<le> v" and "v \<le> 1"
  shows "volume (st (step (VolumeInput (Fin v)) w)) = Fin v \<and>
         isMuted (st (step (VolumeInput (Fin v)) w)) = (v = 0) \<and>
         map_option v_volume (videoRef (step (VolumeInput (Fin v)) w))
           = Some (effective_volume (st (step (VolumeInput (Fin v)) w))) \<and>
         effective_volume (st (step (VolumeInput (Fin v)) w)) = Fin v \<and>
         (\<forall>es autoPlay v'. volume_synced (run es (mount autoPlay v')))"
proof -
  have s: "volume_synced (step (VolumeInput (Fin v)) w)"
    using assms(3) by (rule volume_synced_step)
  have r: "videoRef (step (VolumeInput (Fin v)) w) \<noteq> None"
    using step_VolumeInput_videoRef [OF assms(1,2), of "Fin v"] by auto
  have a: "volume (st (step (VolumeInput (Fin v)) w)) = Fin v"
    and b: "isMuted (st (step (VolumeInput (Fin v)) w)) = (v = 0)"
    using assms(1)
    by (simp_all add: step_st user_def handleVolumeChange_def setter_defs Let_def)
  have c: "map_option v_volume (videoRef (step (VolumeInput (Fin v)) w))
           = Some (effective_volume (st (step (VolumeInput (Fin v)) w)))"
    using s r by (cases "videoRef (step (VolumeInput (Fin v)) w)")
      (simp_all add: volume_synced_def)
  have d: "volume_synced (run es (mount autoPlay v'))" for es autoPlay v'
    by (rule volume_synced_run) (rule volume_synced_mount)
  show ?thesis
    using a b c d by (simp add: effective_volume_def)
qed

text \<open>
  C8 on a player just mounted: the slider at 0 mutes and silences the element; the slider
  then at 0.3 clears the mute and gives the element 0.3.
\<close>

theorem setVolume_effective_witness:
  "volume_synced (mount False (Some video0)) \<and>
   isMuted (st (step (VolumeInput (Fin 0)) (mount False (Some video0)))) \<and>
   map_option v_volume (videoRef (step (VolumeInput (Fin 0)) (mount False (Some video0))))
     = Some (Fin 0) \<and>
   \<not> isMuted (st (step (VolumeInput (Fin (3 / 10)))
                        (step (VolumeInput (Fin 0)) (mount False (Some video0))))) \<and>
   map_option v_volume (videoRef (step (VolumeInput (Fin (3 / 10)))
                        (step (VolumeInput (Fin 0)) (mount False (Some video0)))))
     = Some (Fin (3 / 10))"
proof -
  let ?w = "mount False (Some video0)"
  let ?w1 = "step (VolumeInput (Fin 0)) ?w"
  have m: "mounted ?w"
    by (simp add: mount_def effect_defs)
  have y: "volume_synced ?w"
    by (rule volume_synced_mount)
  have m1: "mounted ?w1"
    using m by (simp add: step_mounted user_def handleVolumeChange_def setter_defs Let_def)
  have y1: "volume_synced ?w1"
    using y by (rule volume_synced_step)
  obtain x where r: "videoRef ?w = Some x"
    by (simp add: mount_def effect_defs)
  obtain x1 where r1: "videoRef ?w1 = Some x1"
    using step_VolumeInput_videoRef [OF m r] by blast
  show ?thesis
    using y setVolume_effective [OF m r y, of 0] setVolume_effective [OF m1 r1 y1, of "3 / 10"]
    by auto
qed

subsection \<open>C9: the mute button\<close>

text \<open>
  C9. \<^verbatim>\<open>handleMuteToggle\<close> sets \<open>isMuted\<close> to the negation of the render's value and leaves
  \<open>volume\<close> as it was; on a mounted player one click flips \<open>isMuted\<close>, and two clicks in
  succession restore it, with \<open>volume\<close> unchanged.
\<close>

theorem toggleMute_twice:
  assumes "mounted w"
  shows "isMuted (st (handleMuteToggle snap w)) = (\<not> isMuted snap) \<and>
         volume (st (handleMuteToggle snap w)) = volume (st w) \<and>
         isMuted (st (step MuteClick w)) = (\<not> isMuted (st w)) \<and>
         volume (st (step MuteClick w)) = volume (st w) \<and>
         isMuted (st (step MuteClick (step MuteClick w))) = isMuted (st w) \<and>
         volume (st (step MuteClick (step MuteClick w))) = volume (st w)"
  using assms by (simp add: step_st step_mounted user_def handleMuteToggle_def setIsMuted_def)

text \<open>C9 on a player just mounted, which is not muted and has volume 0.5.\<close>

theorem toggleMute_twice_witness:
  "mounted (mount False (Some video0)) \<and>
   isMuted (st (step MuteClick (mount False (Some video0)))) \<and>
   \<not> isMuted (st (step MuteClick (step MuteClick (mount False (Some video0))))) \<and>
   volume (st (step MuteClick (step MuteClick (mount False (Some video0))))) = Fin (1 / 2)"
proof -
  have m: "mounted (mount False (Some video0))"
    and i: "\<not> isMuted (st (mount False (Some video0)))"
    and v: "volume (st (mount False (Some video0))) = Fin (1 / 2)"
    by (simp_all add: mount_def effect_defs)
  show ?thesis
    using m i v toggleMute_twice [OF m, of "st (mount False (Some video0))"] by simp
qed

subsection \<open>C10: seeking without an element\<close>

text \<open>
  C10. When \<^verbatim>\<open>videoRef.current\<close> is \<^verbatim>\<open>null\<close>, \<^verbatim>\<open>handleProgressChange\<close> returns the world it
  was given: no cell changes (not \<open>progress\<close> either), no timer is scheduled and the
  controls are not shown; and the whole reaction to the input, effects included, changes
  nothing.
\<close>

theorem seek_without_resource:
  assumes "videoRef w = None"
  shows "handleProgressChange snap x w = w \<and> step (ProgressInput x) w = w"
  using assms by (simp add: handleProgressChange_def step_def user_def run_effects_same)

text \<open>C10 on a player mounted without an element.\<close>

theorem seek_without_resource_witness:
  "videoRef (mount True None) = None \<and>
   handleProgressChange (st (mount True None)) (Fin 50) (mount True None) = mount True None \<and>
   step (ProgressInput (Fin 50)) (mount True None) = mount True None"
proof -
  have h: "videoRef (mount True None) = None"
    by (simp add: mount_def effect_defs)
  show ?thesis
    using h seek_without_resource [OF h] by simp
qed

end
